theory Spec2Isabelle
  imports Complex_Main
begin

section \<open>Python values\<close>

text \<open>
  The write path of affinity-sync handles values whose type is only known at run time:
  \<^verbatim>\<open>FieldType = Location | list[str] | float | str | None | datetime.datetime | list[int]\<close>
  on the caller's side, and \<^verbatim>\<open>FieldValue.value: Any\<close> (parsed JSON) on the remote side.
  The scalar values are the datatype \<open>pyval\<close>; a caller's field value is either one scalar
  or a list of scalars (\<open>field_input\<close>).

  A finite float is the rational number it denotes, so that Python's exact comparison of
  \<open>int\<close>, \<open>bool\<close> and \<open>float\<close> is equality of rationals (NaN and the infinities are not
  modelled). A JSON object, and the dump of a \<open>Location\<close>, is an association list from keys
  to strings or null; a remote value is a JSON scalar or such an object, not an array.
  Datetimes are naive. Strings are ASCII.
\<close>

record location =
  street_address :: string
  city :: string
  state :: string
  country :: string

record datetime =
  year :: nat
  month :: nat
  day :: nat
  hour :: nat
  minute :: nat
  second :: nat
  microsecond :: nat

datatype pyval =
    VNone
  | VBool bool
  | VInt int
  | VFloat rat
  | VStr string
  | VDatetime datetime
  | VLocation location
  | VDict "(string \<times> string option) list"

datatype field_input = Single pyval | Multi "pyval list"

text \<open>Python's truth value \<^verbatim>\<open>bool(v)\<close>: what \<^verbatim>\<open>if v\<close>, \<^verbatim>\<open>not v\<close> and \<^verbatim>\<open>filter(None, ...)\<close> test.\<close>

fun truthy :: "pyval \<Rightarrow> bool" where
  "truthy VNone = False"
| "truthy (VBool b) = b"
| "truthy (VInt i) = (i \<noteq> 0)"
| "truthy (VFloat q) = (q \<noteq> 0)"
| "truthy (VStr s) = (s \<noteq> [])"
| "truthy (VDatetime d) = True"
| "truthy (VLocation l) = True"
| "truthy (VDict kvs) = (kvs \<noteq> [])"

text \<open>
  Python's \<^verbatim>\<open>==\<close>. \<open>bool\<close> is a subclass of \<open>int\<close> and numbers of different types compare
  by value, so \<^verbatim>\<open>True == 1 == 1.0\<close>; a pydantic model equals only a model with the same
  fields, never a \<open>dict\<close>; two dicts are equal when they bind the same keys to equal values.
\<close>

fun as_number :: "pyval \<Rightarrow> rat option" where
  "as_number (VBool b) = Some (if b then 1 else 0)"
| "as_number (VInt i) = Some (of_int i)"
| "as_number (VFloat q) = Some q"
| "as_number v = None"

definition dict_eq :: "(string \<times> string option) list \<Rightarrow> (string \<times> string option) list \<Rightarrow> bool" where
  "dict_eq a b = list_all (\<lambda>k. map_of a k = map_of b k) (map fst a @ map fst b)"

fun py_eq :: "pyval \<Rightarrow> pyval \<Rightarrow> bool" where
  "py_eq VNone VNone = True"
| "py_eq (VStr a) (VStr b) = (a = b)"
| "py_eq (VDatetime a) (VDatetime b) = (a = b)"
| "py_eq (VLocation a) (VLocation b) = (a = b)"
| "py_eq (VDict a) (VDict b) = dict_eq a b"
| "py_eq a b = (case as_number a of
                  None \<Rightarrow> False
                | Some x \<Rightarrow> (case as_number b of None \<Rightarrow> False | Some y \<Rightarrow> x = y))"

text \<open>\<^verbatim>\<open>v in xs\<close> on a list: some element equals \<open>v\<close>.\<close>

definition py_in :: "pyval \<Rightarrow> pyval list \<Rightarrow> bool" where
  "py_in v xs = list_ex (\<lambda>e. py_eq e v) xs"

subsection \<open>Strings\<close>

text \<open>\<^verbatim>\<open>str.upper()\<close> and \<^verbatim>\<open>str.lower()\<close> on ASCII text: only the 26 letters change.\<close>

definition upper_char :: "char \<Rightarrow> char" where
  "upper_char c =
     (case map_of (zip ''abcdefghijklmnopqrstuvwxyz'' ''ABCDEFGHIJKLMNOPQRSTUVWXYZ'') c of
        Some u \<Rightarrow> u
      | None \<Rightarrow> c)"

definition lower_char :: "char \<Rightarrow> char" where
  "lower_char c =
     (case map_of (zip ''ABCDEFGHIJKLMNOPQRSTUVWXYZ'' ''abcdefghijklmnopqrstuvwxyz'') c of
        Some l \<Rightarrow> l
      | None \<Rightarrow> c)"

definition upper :: "string \<Rightarrow> string" where
  "upper s = map upper_char s"

definition lower :: "string \<Rightarrow> string" where
  "lower s = map lower_char s"

section \<open>Errors, requests and outcomes\<close>

text \<open>
  Every \<^verbatim>\<open>raise\<close> of the source is a value. The source raises the builtin \<open>ValueError\<close> at
  several places with different messages; the message is kept as a \<open>reason\<close>. The builtin
  errors that Python itself raises (\<open>TypeError\<close>, \<open>AttributeError\<close>, \<open>IndexError\<close>),
  pydantic's \<open>ValidationError\<close> and the client's \<open>TryAgainError\<close> are values too.
\<close>

datatype reason =
    InvalidFieldValueType
  | FieldValueTypeMismatch
  | FieldDoesNotAllowMultiple
  | CachedLookupNeedsBoth
  | MultipleEntriesFound
  | ListIdRequired
  | ListEntryIdRequired
  | InvalidLiteralForInt

datatype error =
    ValueError reason
  | MultipleResults
  | AlreadyExists
  | FieldNotFoundError
  | CannotDetermineCorrectEntityError
  | TypeError
  | AttributeError
  | IndexError
  | ValidationError
  | TryAgainError
  | HTTPError nat

subsection \<open>The v1 API's records\<close>

text \<open>
  The pydantic models of \<^verbatim>\<open>module_types/affinity_v1_api.py\<close>, with the fields the write path
  reads. Field names carry a prefix where two models share a name.
\<close>

record person =
  p_id :: int
  first_name :: string
  last_name :: string
  primary_email :: "string option"
  emails :: "string list"
  organization_ids :: "int list"

record new_person =
  np_first_name :: string
  np_last_name :: string
  np_emails :: "string list"
  np_organization_ids :: "int list"

record company =
  c_id :: int
  c_name :: string
  c_domain :: "string option"
  c_domains :: "string list"
  c_person_ids :: "int list"

record new_company =
  nc_name :: string
  nc_domain :: "string option"
  nc_person_ids :: "int list"

record opportunity_list_entry =
  ole_id :: int
  ole_list_id :: int
  ole_entity_id :: int

record opportunity =
  o_id :: int
  o_name :: string
  o_person_ids :: "int list"
  o_organization_ids :: "int list"
  list_entries :: "opportunity_list_entry list"

record new_opportunity =
  no_name :: string
  no_list_id :: int
  no_person_ids :: "int list"
  no_organization_ids :: "int list"

record list_entry =
  le_id :: int
  le_list_id :: int
  le_entity_id :: int

record field =
  f_id :: int
  f_name :: string
  f_list_id :: "int option"
  f_value_type :: int
  allows_multiple :: bool

record field_value =
  fv_id :: int
  field_id :: int
  fv_list_entry_id :: "int option"
  fv_entity_id :: int
  fv_value :: pyval

text \<open>
  \<^verbatim>\<open>affinity_v2_api.FieldMetadata\<close> is imported by the writer; of its attributes the writer
  reads \<open>type\<close>, \<open>affinity_id\<close> (the composite identifier, a string), \<open>name\<close> and
  \<open>value_type\<close> (the key into \<open>FieldTypeMap\<close>).
\<close>

record field_metadata =
  fm_type :: string
  affinity_id :: string
  fm_name :: string
  fm_value_type :: string

datatype entity_type = EPerson | ECompany | EOpportunity

subsection \<open>Requests\<close>

text \<open>
  Each request the clients send, to the remote service or to the mirror store, in the order
  sent. \<open>GET_field_values\<close> carries the four query parameters \<open>person_id\<close>,
  \<open>organization_id\<close>, \<open>opportunity_id\<close>, \<open>list_entry_id\<close>; \<open>POST_field_values\<close> carries
  \<open>field_id\<close>, \<open>entity_id\<close>, \<open>value\<close> and \<open>list_entry_id\<close>; \<open>POST_list_entries\<close> the list id
  and the entity id. The field catalogue's metadata reads are cached by the writer and are
  not recorded.
\<close>

datatype request =
    GET_persons string
  | GET_person int
  | POST_persons new_person
  | GET_organizations string
  | GET_organization int
  | POST_organizations new_company
  | GET_opportunities string
  | POST_opportunities new_opportunity
  | GET_list_entries int
  | POST_list_entries int int
  | GET_field_values "int option" "int option" "int option" "int option"
  | POST_field_values int int pyval "int option"
  | DELETE_field_values int
  | STORE_people_ids_by_field string "pyval list"
  | STORE_company_ids_by_field string "pyval list"
  | STORE_insert_call_entitlement

text \<open>
  What the remote service and the store answer. The transport (\<^verbatim>\<open>_send_request\<close>) and the
  store are collaborators of the write path; their answers are parameters. The creation of
  a person may be refused with an HTTP status, which \<open>create_person\<close> handles; other
  failures of the transport are outside the write path and every other request is
  answered. \<open>GET_person\<close> and \<open>GET_organization\<close> answer \<open>None\<close> for an entity deleted
  upstream.
\<close>

record remote =
  get_persons :: "string \<Rightarrow> person list"
  get_person :: "int \<Rightarrow> person option"
  post_persons :: "new_person \<Rightarrow> nat + person"
  get_organizations :: "string \<Rightarrow> company list"
  get_organization :: "int \<Rightarrow> company option"
  post_organizations :: "new_company \<Rightarrow> company"
  get_opportunities :: "string \<Rightarrow> opportunity list"
  post_opportunities :: "new_opportunity \<Rightarrow> opportunity"
  get_list_entries :: "int \<Rightarrow> list_entry list"
  post_list_entries :: "int \<Rightarrow> int \<Rightarrow> list_entry"
  get_field_values :: "int option \<Rightarrow> int option \<Rightarrow> int option \<Rightarrow> int option \<Rightarrow> field_value list"
  get_fields :: "field list"
  get_people_fields :: "field_metadata list"
  get_company_fields :: "field_metadata list"
  get_list_fields_v2 :: "int \<Rightarrow> field_metadata list"
  people_ids_by_field :: "string \<Rightarrow> pyval list \<Rightarrow> int list"
  company_ids_by_field :: "string \<Rightarrow> pyval list \<Rightarrow> int list"

subsection \<open>Outcomes\<close>

text \<open>
  A call ends with an error or a result, and has sent some requests by then: the requests
  sent before a \<^verbatim>\<open>raise\<close> stay sent.
\<close>

type_synonym 'a outcome = "(error + 'a) \<times> request list"

definition return :: "'a \<Rightarrow> 'a outcome" where
  "return x = (Inr x, [])"

definition raise :: "error \<Rightarrow> 'a outcome" where
  "raise e = (Inl e, [])"

definition send :: "request \<Rightarrow> 'a \<Rightarrow> 'a outcome" where
  "send r answer = (Inr answer, [r])"

definition then_do :: "'a outcome \<Rightarrow> ('a \<Rightarrow> 'b outcome) \<Rightarrow> 'b outcome" where
  "then_do m k =
     (case m of
        (Inl e, reqs) \<Rightarrow> (Inl e, reqs)
      | (Inr x, reqs) \<Rightarrow> (case k x of (r, reqs') \<Rightarrow> (r, reqs @ reqs')))"

section \<open>The v1 client: searches\<close>

text \<open>\<^verbatim>\<open>clients/affinity_v1.py\<close>, \<open>find_person_by_email\<close> and \<open>find_person_by_emails\<close>.\<close>

definition find_person_by_email :: "remote \<Rightarrow> string \<Rightarrow> person option outcome" where
  "find_person_by_email rs email =
     then_do (send (GET_persons email) (get_persons rs email)) (\<lambda>persons.
       case persons of
         p # rest \<Rightarrow> return (Some p)
       | [] \<Rightarrow> return None)"

fun find_person_by_emails :: "remote \<Rightarrow> string list \<Rightarrow> person option outcome" where
  "find_person_by_emails rs [] = return None"
| "find_person_by_emails rs (email # others) =
     then_do (find_person_by_email rs email) (\<lambda>found.
       case found of
         Some p \<Rightarrow> return (Some p)
       | None \<Rightarrow> find_person_by_emails rs others)"

text \<open>
  \<open>find_person_by_name\<close>: the search term is the full name; \<open>valid_persons\<close> are the answers
  whose first and last name equal the query's after \<open>upper()\<close>. With one valid person the
  source returns \<^verbatim>\<open>response.persons[0]\<close>.
\<close>

definition find_person_by_name :: "remote \<Rightarrow> string \<Rightarrow> string \<Rightarrow> person option outcome" where
  "find_person_by_name rs fname lname =
     then_do (send (GET_persons (fname @ '' '' @ lname)) (get_persons rs (fname @ '' '' @ lname)))
       (\<lambda>persons.
         let valid_persons =
               filter (\<lambda>p. upper (first_name p) = upper fname \<and> upper (last_name p) = upper lname)
                 persons
         in if length valid_persons = 1 then
              (case persons of p # rest \<Rightarrow> return (Some p) | [] \<Rightarrow> raise IndexError)
            else if length valid_persons > 1 then raise MultipleResults
            else return None)"

text \<open>
  \<open>find_company_by_domain\<close> and \<open>find_company_by_name\<close>: here the single or best match is
  \<^verbatim>\<open>valid_companies[0]\<close>.
\<close>

definition find_company_by_domain :: "remote \<Rightarrow> string \<Rightarrow> bool \<Rightarrow> company option outcome" where
  "find_company_by_domain rs domain take_best_match =
     then_do (send (GET_organizations domain) (get_organizations rs domain)) (\<lambda>organizations.
       let valid_companies =
             filter (\<lambda>c. list_ex (\<lambda>company_domain. lower company_domain = lower domain) (c_domains c))
               organizations
       in if length valid_companies = 1 \<or> (take_best_match \<and> length valid_companies > 0) then
            (case valid_companies of c # rest \<Rightarrow> return (Some c) | [] \<Rightarrow> raise IndexError)
          else if length valid_companies > 1 then raise MultipleResults
          else return None)"

definition find_company_by_name :: "remote \<Rightarrow> string \<Rightarrow> bool \<Rightarrow> company option outcome" where
  "find_company_by_name rs name take_best_match =
     then_do (send (GET_organizations name) (get_organizations rs name)) (\<lambda>organizations.
       let valid_companies = filter (\<lambda>c. upper (c_name c) = upper name) organizations
       in if length valid_companies = 1 \<or> (take_best_match \<and> length valid_companies > 0) then
            (case valid_companies of c # rest \<Rightarrow> return (Some c) | [] \<Rightarrow> raise IndexError)
          else if length valid_companies > 1 then raise MultipleResults
          else return None)"

text \<open>
  \<open>Opportunity.list_id\<close> is the property \<^verbatim>\<open>self.list_entries[0].list_id\<close>; the comprehension
  of \<open>find_opportunity_by_name\<close> reads it for every answer, in order, and keeps the answers
  on the requested list.
\<close>

definition list_id :: "opportunity \<Rightarrow> error + int" where
  "list_id opp = (case list_entries opp of e # rest \<Rightarrow> Inr (ole_list_id e) | [] \<Rightarrow> Inl IndexError)"

fun on_list :: "int \<Rightarrow> opportunity list \<Rightarrow> error + opportunity list" where
  "on_list lid [] = Inr []"
| "on_list lid (opp # opps) =
     (case list_id opp of
        Inl e \<Rightarrow> Inl e
      | Inr l \<Rightarrow>
          (case on_list lid opps of
             Inl e \<Rightarrow> Inl e
           | Inr kept \<Rightarrow> Inr (if l = lid then opp # kept else kept)))"

definition find_opportunity_by_name :: "remote \<Rightarrow> int \<Rightarrow> string \<Rightarrow> opportunity option outcome" where
  "find_opportunity_by_name rs lid name =
     then_do (send (GET_opportunities name) (get_opportunities rs name)) (\<lambda>opportunities.
       case on_list lid opportunities of
         Inl e \<Rightarrow> raise e
       | Inr valid_opportunities \<Rightarrow>
           if length valid_opportunities = 1 then
             (case valid_opportunities of opp # rest \<Rightarrow> return (Some opp) | [] \<Rightarrow> raise IndexError)
           else if length valid_opportunities > 1 then raise MultipleResults
           else return None)"

section \<open>The field catalogue\<close>

text \<open>\<^verbatim>\<open>s.split(sep)\<close>: the segments between the separators, at least one.\<close>

fun split_on :: "char \<Rightarrow> string \<Rightarrow> string list" where
  "split_on sep [] = [[]]"
| "split_on sep (c # cs) =
     (if c = sep then [] # split_on sep cs
      else (case split_on sep cs of
              seg # segs \<Rightarrow> (c # seg) # segs
            | [] \<Rightarrow> [[c]]))"

text \<open>
  \<^verbatim>\<open>str.strip()\<close> removes the whitespace of \<^verbatim>\<open>str.isspace()\<close> at both ends: on ASCII text the
  characters 0x09 to 0x0D, 0x1C to 0x1F and the space.
\<close>

definition is_space :: "char \<Rightarrow> bool" where
  "is_space c =
     (c \<in> set [CHR 0x09, CHR 0x0A, CHR 0x0B, CHR 0x0C, CHR 0x0D,
                CHR 0x1C, CHR 0x1D, CHR 0x1E, CHR 0x1F, CHR 0x20])"

definition strip :: "string \<Rightarrow> string" where
  "strip s = rev (dropWhile is_space (rev (dropWhile is_space s)))"

text \<open>
  \<^verbatim>\<open>int(s)\<close> on a string: the whitespace that \<open>int\<close> skips at both ends is C's (0x09 to
  0x0D and the space, not 0x1C to 0x1F), a sign may lead, and the decimal digits may be
  grouped by single underscores; anything else is a \<open>ValueError\<close>.
\<close>

definition is_c_space :: "char \<Rightarrow> bool" where
  "is_c_space c = (c \<in> set [CHR 0x09, CHR 0x0A, CHR 0x0B, CHR 0x0C, CHR 0x0D, CHR 0x20])"

definition skip_c_space :: "string \<Rightarrow> string" where
  "skip_c_space s = rev (dropWhile is_c_space (rev (dropWhile is_c_space s)))"

definition digit_of :: "char \<Rightarrow> nat option" where
  "digit_of c = map_of (zip ''0123456789'' [0, 1, 2, 3, 4, 5, 6, 7, 8, 9]) c"

definition digits_value :: "string \<Rightarrow> nat" where
  "digits_value ds = foldl (\<lambda>acc c. 10 * acc + (case digit_of c of Some d \<Rightarrow> d | None \<Rightarrow> 0)) 0 ds"

definition py_int :: "string \<Rightarrow> error + int" where
  "py_int s =
     (let t = skip_c_space s;
          negative = (case t of c # cs \<Rightarrow> c = CHR ''-'' | [] \<Rightarrow> False);
          body = (case t of c # cs \<Rightarrow> (if c = CHR ''-'' \<or> c = CHR ''+'' then cs else t) | [] \<Rightarrow> t);
          groups = split_on CHR ''_'' body
      in if list_all (\<lambda>g. g \<noteq> [] \<and> list_all (\<lambda>c. digit_of c \<noteq> None) g) groups then
           Inr (if negative then - int (digits_value (concat groups))
                else int (digits_value (concat groups)))
         else Inl (ValueError InvalidLiteralForInt))"

text \<open>
  \<^verbatim>\<open>v1_fields = {field.id: field for field in self.__v1_fields}\<close>: a later field with the same
  id replaces an earlier one. The key looked up is an \<open>int\<close> in the global catalogue; in a
  list's catalogue it is an \<open>int\<close> or, for an identifier with no dash, the identifier's
  string, which no \<open>int\<close> key equals.
\<close>

datatype legacy_key = IntKey int | StrKey string

definition v1_fields :: "remote \<Rightarrow> int \<Rightarrow> field option" where
  "v1_fields rs = map_of (rev (map (\<lambda>f. (f_id f, f)) (get_fields rs)))"

fun v1_get :: "(int \<Rightarrow> field option) \<Rightarrow> legacy_key \<Rightarrow> field option" where
  "v1_get d (IntKey i) = d i"
| "v1_get d (StrKey s) = None"

type_synonym catalogue = "string \<Rightarrow> (field_metadata \<times> field option) option"

text \<open>
  The cached property \<open>__fields\<close>: the loop over the people fields followed by the company
  fields. \<^verbatim>\<open>field.affinity_id.split('-')[1]\<close> needs a second segment.
\<close>

fun fields_loop :: "(int \<Rightarrow> field option) \<Rightarrow> field_metadata list \<Rightarrow> catalogue \<Rightarrow> error + catalogue" where
  "fields_loop d [] out = Inr out"
| "fields_loop d (fm # fms) out =
     (if fm_type fm \<in> set [''global'', ''list''] then
        (case split_on CHR ''-'' (affinity_id fm) of
           seg0 # seg1 # segs \<Rightarrow>
             (case py_int seg1 of
                Inl e \<Rightarrow> Inl e
              | Inr v1_id \<Rightarrow> fields_loop d fms (out(upper (fm_name fm) \<mapsto> (fm, v1_get d (IntKey v1_id)))))
         | short \<Rightarrow> Inl IndexError)
      else fields_loop d fms out)"

definition fields :: "remote \<Rightarrow> error + catalogue" where
  "fields rs = fields_loop (v1_fields rs) (get_people_fields rs @ get_company_fields rs) Map.empty"

text \<open>
  \<open>get_list_fields\<close>: the same loop over one list's fields, which skips the pseudo-fields
  \<open>persons\<close> and \<open>companies\<close> and tests for a dash before it splits. The per-list cache
  returns what the loop computed.
\<close>

definition legacy_id :: "string \<Rightarrow> error + legacy_key" where
  "legacy_id ident =
     (if CHR ''-'' \<in> set ident then
        (case split_on CHR ''-'' ident of
           seg0 # seg1 # segs \<Rightarrow> (case py_int seg1 of Inl e \<Rightarrow> Inl e | Inr i \<Rightarrow> Inr (IntKey i))
         | short \<Rightarrow> Inl IndexError)
      else Inr (StrKey ident))"

fun list_fields_loop :: "(int \<Rightarrow> field option) \<Rightarrow> field_metadata list \<Rightarrow> catalogue \<Rightarrow> error + catalogue" where
  "list_fields_loop d [] out = Inr out"
| "list_fields_loop d (fm # fms) out =
     (if fm_type fm \<in> set [''global'', ''list''] \<and> affinity_id fm \<notin> set [''persons'', ''companies''] then
        (case legacy_id (affinity_id fm) of
           Inl e \<Rightarrow> Inl e
         | Inr v1_id \<Rightarrow> list_fields_loop d fms (out(upper (fm_name fm) \<mapsto> (fm, v1_get d v1_id))))
      else list_fields_loop d fms out)"

definition get_list_fields :: "remote \<Rightarrow> int \<Rightarrow> error + catalogue" where
  "get_list_fields rs lid = list_fields_loop (v1_fields rs) (get_list_fields_v2 rs lid) Map.empty"

text \<open>
  \<open>__get_field\<close>: the global catalogue, overlaid with the list's when \<^verbatim>\<open>if list_id\<close> holds
  (a list id that is neither \<open>None\<close> nor \<open>0\<close>).
\<close>

definition get_field :: "remote \<Rightarrow> string \<Rightarrow> int option \<Rightarrow> error + (field_metadata \<times> field option)" where
  "get_field rs field_name lid =
     (case fields rs of
        Inl e \<Rightarrow> Inl e
      | Inr global \<Rightarrow>
          (case (case lid of
                   None \<Rightarrow> Inr global
                 | Some l \<Rightarrow>
                     (if l = 0 then Inr global
                      else (case get_list_fields rs l of
                              Inl e \<Rightarrow> Inl e
                            | Inr scoped \<Rightarrow> Inr (global ++ scoped)))) of
             Inl e \<Rightarrow> Inl e
           | Inr merged \<Rightarrow>
               (case merged (upper field_name) of
                  None \<Rightarrow> Inl FieldNotFoundError
                | Some found \<Rightarrow> Inr found)))"

section \<open>Checking and normalising a field value\<close>

text \<open>
  \<open>FieldTypeMap\<close> of \<^verbatim>\<open>affinity_v1_api.py\<close> binds a value type's name to a Python type; the
  multi-valued names are bound to parameterized generics such as \<^verbatim>\<open>list[int]\<close>.
\<close>

datatype pytype = T_int | T_float | T_str | T_datetime | T_Location | T_list pytype

definition FieldTypeMap :: "string \<Rightarrow> pytype option" where
  "FieldTypeMap = map_of
     [(''person'', T_int),
      (''person-multi'', T_list T_int),
      (''company'', T_int),
      (''company-multi'', T_list T_int),
      (''filterable-text'', T_str),
      (''filterable-text-multi'', T_list T_str),
      (''number'', T_float),
      (''number-multi'', T_list T_float),
      (''datetime'', T_datetime),
      (''location'', T_Location),
      (''location-multi'', T_list T_Location),
      (''text'', T_str),
      (''ranked-dropdown'', T_str),
      (''dropdown'', T_str),
      (''dropdown-multi'', T_list T_str)]"

text \<open>
  The builtin \<^verbatim>\<open>isinstance(value, t)\<close>. Python refuses a parameterized generic as its second
  argument (\<^verbatim>\<open>TypeError: isinstance() argument 2 cannot be a parameterized generic\<close>),
  whatever the value. A \<open>bool\<close> is an \<open>int\<close>; an \<open>int\<close> is not a \<open>float\<close>.
\<close>

fun isinstance :: "field_input \<Rightarrow> pytype \<Rightarrow> error + bool" where
  "isinstance v (T_list t) = Inl TypeError"
| "isinstance (Multi xs) t = Inr False"
| "isinstance (Single (VBool b)) T_int = Inr True"
| "isinstance (Single (VInt i)) T_int = Inr True"
| "isinstance (Single (VFloat q)) T_float = Inr True"
| "isinstance (Single (VStr s)) T_str = Inr True"
| "isinstance (Single (VDatetime d)) T_datetime = Inr True"
| "isinstance (Single (VLocation l)) T_Location = Inr True"
| "isinstance (Single v) t = Inr False"

text \<open>
  \<open>__check_field_value_type\<close>: \<^verbatim>\<open>not isinstance(...) and value is not None\<close> evaluates the
  \<open>isinstance\<close> first.
\<close>

definition check_field_value_type :: "field_input \<Rightarrow> string \<Rightarrow> error + unit" where
  "check_field_value_type v value_type =
     (case FieldTypeMap value_type of
        None \<Rightarrow> Inl (ValueError InvalidFieldValueType)
      | Some t \<Rightarrow>
          (case isinstance v t of
             Inl e \<Rightarrow> Inl e
           | Inr is_instance \<Rightarrow>
               if \<not> is_instance \<and> v \<noteq> Single VNone then Inl (ValueError FieldValueTypeMismatch)
               else Inr ()))"

text \<open>
  \<^verbatim>\<open>strftime('%Y-%m-%dT%H:%M:%S')\<close>. The month, day, hour, minute and second are written on
  two digits; the year (1 to 9999) is written by the C library, which on Linux does not pad
  it: the year 999 gives \<open>999\<close>.
\<close>

definition digit_char :: "nat \<Rightarrow> char" where
  "digit_char n = ''0123456789'' ! (n mod 10)"

definition two_digits :: "nat \<Rightarrow> string" where
  "two_digits n = [digit_char (n div 10), digit_char n]"

definition year_digits :: "nat \<Rightarrow> string" where
  "year_digits y =
     (if y < 10 then [digit_char y]
      else if y < 100 then two_digits y
      else if y < 1000 then digit_char (y div 100) # two_digits y
      else two_digits (y div 100) @ two_digits y)"

definition strftime :: "datetime \<Rightarrow> string" where
  "strftime d =
     year_digits (year d) @ ''-'' @ two_digits (month d) @ ''-'' @
     two_digits (day d) @ ''T'' @ two_digits (hour d) @ '':'' @ two_digits (minute d) @ '':'' @
     two_digits (second d)"

text \<open>
  \<^verbatim>\<open>[value.strftime(...) for value in field_value]\<close>: an element that is not a datetime has
  no \<open>strftime\<close>.
\<close>

fun strftime_all :: "pyval list \<Rightarrow> error + pyval list" where
  "strftime_all [] = Inr []"
| "strftime_all (VDatetime d # vs) =
     (case strftime_all vs of Inl e \<Rightarrow> Inl e | Inr out \<Rightarrow> Inr (VStr (strftime d) # out))"
| "strftime_all (v # vs) = Inl AttributeError"

text \<open>
  Lines 370 to 376 of \<open>__update_field\<close>: a scalar becomes a singleton list,
  \<^verbatim>\<open>filter(None, ...)\<close> keeps the truthy entries, and when the first entry left is a datetime
  every entry is formatted.
\<close>

definition normalize :: "field_input \<Rightarrow> error + pyval list" where
  "normalize field_value =
     (let as_list = (case field_value of Multi xs \<Rightarrow> xs | Single v \<Rightarrow> [v]);
          kept = filter truthy as_list
      in case kept of
           VDatetime d # others \<Rightarrow> strftime_all kept
         | others \<Rightarrow> Inr kept)"

text \<open>\<^verbatim>\<open>Location.model_dump()\<close>, the dict sent for a location.\<close>

definition model_dump :: "location \<Rightarrow> pyval" where
  "model_dump l = VDict
     [(''street_address'', Some (street_address l)),
      (''city'', Some (city l)),
      (''state'', Some (state l)),
      (''country'', Some (country l))]"

definition wire :: "pyval \<Rightarrow> pyval" where
  "wire v = (case v of VLocation l \<Rightarrow> model_dump l | other \<Rightarrow> v)"

section \<open>The writer\<close>

definition lift :: "error + 'a \<Rightarrow> 'a outcome" where
  "lift r = (case r of Inl e \<Rightarrow> raise e | Inr x \<Rightarrow> return x)"

text \<open>
  The decorator \<open>insert_entitlement_after\<close>: the entitlement is written to the store after
  the wrapped method has returned; an exception passes through it.
\<close>

definition insert_entitlement_after :: "'a outcome \<Rightarrow> 'a outcome" where
  "insert_entitlement_after call =
     then_do call (\<lambda>result.
       then_do (send STORE_insert_call_entitlement ()) (\<lambda>u. return result))"

subsection \<open>Updating fields\<close>

text \<open>
  \<^verbatim>\<open>[value for value in current_values if value.field_id == v1_field.id]\<close> (line 361): with a
  field that has no legacy counterpart, \<open>v1_field\<close> is \<open>None\<close> and the first row read fails.
\<close>

definition rows_of_field :: "field option \<Rightarrow> field_value list \<Rightarrow> error + field_value list" where
  "rows_of_field v1_field current_values =
     (case v1_field of
        Some f \<Rightarrow> Inr (filter (\<lambda>v. field_id v = f_id f) current_values)
      | None \<Rightarrow> (if current_values = [] then Inr [] else Inl AttributeError))"

text \<open>The two loops that end \<open>__update_field\<close>: one request per element, in order.\<close>

fun delete_all :: "field_value list \<Rightarrow> unit outcome" where
  "delete_all [] = return ()"
| "delete_all (v # vs) =
     then_do (send (DELETE_field_values (fv_id v)) ()) (\<lambda>u. delete_all vs)"

fun create_all :: "int \<Rightarrow> int \<Rightarrow> int option \<Rightarrow> pyval list \<Rightarrow> unit outcome" where
  "create_all fid entity_id list_entry_id [] = return ()"
| "create_all fid entity_id list_entry_id (v # vs) =
     then_do (send (POST_field_values fid entity_id (wire v) list_entry_id) ()) (\<lambda>u.
       create_all fid entity_id list_entry_id vs)"

definition is_list :: "field_input \<Rightarrow> bool" where
  "is_list v = (case v of Multi xs \<Rightarrow> True | Single x \<Rightarrow> False)"

text \<open>Lines 361 to 396 of \<open>__update_field\<close>, after the field is resolved and the value checked.\<close>

definition update_field_body ::
  "field option \<Rightarrow> int \<Rightarrow> int option \<Rightarrow> field_input \<Rightarrow> field_value list \<Rightarrow> bool \<Rightarrow> unit outcome" where
  "update_field_body v1_field entity_id list_entry_id field_value current_values overwrite =
     then_do (lift (rows_of_field v1_field current_values)) (\<lambda>current.
       if current \<noteq> [] \<and> \<not> overwrite then return ()
       else
         (case v1_field of
            None \<Rightarrow> raise AttributeError
          | Some f \<Rightarrow>
              if \<not> allows_multiple f \<and> is_list field_value then
                raise (ValueError FieldDoesNotAllowMultiple)
              else
                then_do (lift (normalize field_value)) (\<lambda>desired.
                  let values_to_remove = filter (\<lambda>v. \<not> py_in (fv_value v) desired) current;
                      values_to_add = filter (\<lambda>v. \<not> py_in v (map fv_value current)) desired
                  in if values_to_remove = [] \<and> values_to_add = [] then return ()
                     else
                       then_do (delete_all values_to_remove) (\<lambda>u.
                         create_all (f_id f) entity_id list_entry_id values_to_add))))"

definition update_field ::
  "remote \<Rightarrow> int \<Rightarrow> int option \<Rightarrow> string \<Rightarrow> field_input \<Rightarrow> field_value list \<Rightarrow> bool \<Rightarrow> int option
     \<Rightarrow> unit outcome" where
  "update_field rs entity_id list_entry_id field_name field_value current_values overwrite lid =
     then_do (lift (get_field rs field_name lid)) (\<lambda>resolved.
       then_do (lift (check_field_value_type field_value (fm_value_type (fst resolved)))) (\<lambda>u.
         update_field_body (snd resolved) entity_id list_entry_id field_value current_values
           overwrite))"

text \<open>
  \<open>fetch_field_values\<close> of the client: the entity's id goes into the parameter of its type
  unless a (truthy) list entry id is given.
\<close>

definition fetch_field_values :: "remote \<Rightarrow> int \<Rightarrow> entity_type \<Rightarrow> int option \<Rightarrow> field_value list outcome" where
  "fetch_field_values rs entity_id etype list_entry_id =
     (let scoped = (case list_entry_id of Some l \<Rightarrow> l \<noteq> 0 | None \<Rightarrow> False);
          person_id = (if etype = EPerson \<and> \<not> scoped then Some entity_id else None);
          organization_id = (if etype = ECompany \<and> \<not> scoped then Some entity_id else None);
          opportunity_id = (if etype = EOpportunity \<and> \<not> scoped then Some entity_id else None);
          entry = (if scoped then list_entry_id else None)
      in send (GET_field_values person_id organization_id opportunity_id entry)
           (get_field_values rs person_id organization_id opportunity_id entry))"

text \<open>
  \<open>update_fields\<close>: the three guards, one fetch of the current values, then one
  \<open>__update_field\<close> per entry of the dict, in its order, each with the values fetched.
\<close>

fun update_each ::
  "remote \<Rightarrow> int \<Rightarrow> int option \<Rightarrow> field_value list \<Rightarrow> bool \<Rightarrow> int option
     \<Rightarrow> (string \<times> field_input) list \<Rightarrow> unit outcome" where
  "update_each rs entity_id list_entry_id current_values overwrite lid [] = return ()"
| "update_each rs entity_id list_entry_id current_values overwrite lid ((field_name, field_value) # kvs) =
     then_do (update_field rs entity_id list_entry_id field_name field_value current_values overwrite lid)
       (\<lambda>u. update_each rs entity_id list_entry_id current_values overwrite lid kvs)"

definition update_fields ::
  "remote \<Rightarrow> int \<Rightarrow> entity_type \<Rightarrow> (string \<times> field_input) list \<Rightarrow> int option \<Rightarrow> int option \<Rightarrow> bool
     \<Rightarrow> unit outcome" where
  "update_fields rs entity_id etype kvs list_entry_id lid overwrite =
     insert_entitlement_after
       (if etype = EOpportunity \<and> list_entry_id = None then raise CannotDetermineCorrectEntityError
        else if list_entry_id \<noteq> None \<and> lid = None then raise (ValueError ListIdRequired)
        else if lid \<noteq> None \<and> list_entry_id = None then raise (ValueError ListEntryIdRequired)
        else
          then_do (fetch_field_values rs entity_id etype list_entry_id) (\<lambda>current_values.
            update_each rs entity_id list_entry_id current_values overwrite lid kvs))"

subsection \<open>List entries\<close>

text \<open>
  In \<open>find_or_create_list_entry\<close> the variable \<open>current_field_values\<close> first holds the
  \<open>FieldValue\<close> rows fetched for the entry; the loop over the qualifiers assigns to the same
  variable the list of the rows' raw values. An element of it is therefore a row or a raw
  value, and a raw value has no attribute \<open>field_id\<close>.
\<close>

datatype held = Row field_value | Raw pyval

fun values_of :: "field option \<Rightarrow> held list \<Rightarrow> error + pyval list" where
  "values_of v1_field [] = Inr []"
| "values_of v1_field (Raw v # hs) = Inl AttributeError"
| "values_of v1_field (Row r # hs) =
     (case v1_field of
        None \<Rightarrow> Inl AttributeError
      | Some f \<Rightarrow>
          (case values_of v1_field hs of
             Inl e \<Rightarrow> Inl e
           | Inr vs \<Rightarrow> Inr (if field_id r = f_id f then fv_value r # vs else vs)))"

text \<open>The loop over \<^verbatim>\<open>qualifiers.items()\<close> for one entry: \<open>False\<close> at the first mismatch.\<close>

fun qualifiers_match :: "remote \<Rightarrow> int \<Rightarrow> (string \<times> field_input) list \<Rightarrow> held list \<Rightarrow> error + bool" where
  "qualifiers_match rs lid [] current_field_values = Inr True"
| "qualifiers_match rs lid ((field_name, desired) # qs) current_field_values =
     (case get_field rs field_name (Some lid) of
        Inl e \<Rightarrow> Inl e
      | Inr resolved \<Rightarrow>
          (let desired_field_value = (case desired of Multi xs \<Rightarrow> xs | Single v \<Rightarrow> [v])
           in case values_of (snd resolved) current_field_values of
                Inl e \<Rightarrow> Inl e
              | Inr current \<Rightarrow>
                  (let missing_values = filter (\<lambda>v. \<not> py_in v current) desired_field_value;
                       extra_values = filter (\<lambda>v. \<not> py_in v desired_field_value) current
                   in if missing_values \<noteq> [] \<or> extra_values \<noteq> [] then Inr False
                      else qualifiers_match rs lid qs (map Raw current))))"

fun still_matching ::
  "remote \<Rightarrow> int \<Rightarrow> entity_type \<Rightarrow> int \<Rightarrow> (string \<times> field_input) list \<Rightarrow> list_entry list
     \<Rightarrow> list_entry list outcome" where
  "still_matching rs entity_id etype lid qs [] = return []"
| "still_matching rs entity_id etype lid qs (entry # entries) =
     then_do (fetch_field_values rs entity_id etype (Some (le_id entry))) (\<lambda>rows.
       then_do (lift (qualifiers_match rs lid qs (map Row rows))) (\<lambda>matched.
         then_do (still_matching rs entity_id etype lid qs entries) (\<lambda>kept.
           return (if matched then entry # kept else kept))))"

definition create_list_entry :: "remote \<Rightarrow> int \<Rightarrow> int \<Rightarrow> list_entry outcome" where
  "create_list_entry rs lid entity_id =
     send (POST_list_entries lid entity_id) (post_list_entries rs lid entity_id)"

definition find_or_create_list_entry ::
  "remote \<Rightarrow> int \<Rightarrow> entity_type \<Rightarrow> int \<Rightarrow> (string \<times> field_input) list option \<Rightarrow> list_entry outcome" where
  "find_or_create_list_entry rs entity_id etype lid qualifiers =
     insert_entitlement_after
       (then_do (send (GET_list_entries lid) (get_list_entries rs lid)) (\<lambda>entries.
          let mathing_entries = filter (\<lambda>entry. le_entity_id entry = entity_id) entries;
              qs = (case qualifiers of Some given \<Rightarrow> given | None \<Rightarrow> [])
          in then_do
               (if mathing_entries \<noteq> [] \<and> qs \<noteq> [] then
                  still_matching rs entity_id etype lid qs mathing_entries
                else return mathing_entries)
               (\<lambda>survivors.
                  if length survivors > 1 then raise (ValueError MultipleEntriesFound)
                  else
                    (case survivors of
                       entry # others \<Rightarrow> return entry
                     | [] \<Rightarrow> create_list_entry rs lid entity_id))))"

subsection \<open>Find or create\<close>

text \<open>
  The model \<open>NewPerson\<close> validates on construction: both names have \<open>min_length=1\<close>, and the
  validator of \<open>emails\<close> strips each address and drops the empty ones.
\<close>

definition NewPerson :: "string \<Rightarrow> string \<Rightarrow> string list \<Rightarrow> int list \<Rightarrow> error + new_person" where
  "NewPerson fname lname addresses orgs =
     (if fname = [] \<or> lname = [] then Inl ValidationError
      else Inr \<lparr>np_first_name = fname, np_last_name = lname,
                np_emails = filter (\<lambda>a. a \<noteq> []) (map strip addresses),
                np_organization_ids = orgs\<rparr>)"

text \<open>\<open>create_person\<close>: the status 422 becomes \<open>AlreadyExists\<close>, another status is raised again.\<close>

definition create_person :: "remote \<Rightarrow> new_person \<Rightarrow> person outcome" where
  "create_person rs np =
     then_do (send (POST_persons np) (post_persons rs np)) (\<lambda>answer.
       case answer of
         Inl status \<Rightarrow> (if status = 422 then raise AlreadyExists else raise (HTTPError status))
       | Inr p \<Rightarrow> return p)"

definition create_company :: "remote \<Rightarrow> new_company \<Rightarrow> company outcome" where
  "create_company rs nc = send (POST_organizations nc) (post_organizations rs nc)"

definition create_opportunity :: "remote \<Rightarrow> new_opportunity \<Rightarrow> opportunity outcome" where
  "create_opportunity rs new_opp = send (POST_opportunities new_opp) (post_opportunities rs new_opp)"

text \<open>
  Modelled from the spec: \<open>find_person_by_id\<close> and \<open>find_company_by_id\<close> of the v1 client and
  the error \<open>TryAgainError\<close> are called by the writer and are not among the source files.
  The spec's cached fast path: "attempt to fetch that entity by id; if the fetch reports
  not found (entity deleted upstream), fall through".
\<close>

definition find_person_by_id :: "remote \<Rightarrow> int \<Rightarrow> person outcome" where
  "find_person_by_id rs person_id =
     then_do (send (GET_person person_id) (get_person rs person_id)) (\<lambda>answer.
       case answer of Some p \<Rightarrow> return p | None \<Rightarrow> raise TryAgainError)"

definition find_company_by_id :: "remote \<Rightarrow> int \<Rightarrow> company outcome" where
  "find_company_by_id rs company_id =
     then_do (send (GET_organization company_id) (get_organization rs company_id)) (\<lambda>answer.
       case answer of Some c \<Rightarrow> return c | None \<Rightarrow> raise TryAgainError)"

text \<open>\<^verbatim>\<open>try: return find(...) except TryAgainError: ...\<close>: only that error is caught.\<close>

definition or_deleted :: "'a outcome \<Rightarrow> 'a option outcome" where
  "or_deleted call =
     (case call of
        (Inr x, reqs) \<Rightarrow> (Inr (Some x), reqs)
      | (Inl e, reqs) \<Rightarrow> (if e = TryAgainError then (Inr None, reqs) else (Inl e, reqs)))"

text \<open>The truth value of \<^verbatim>\<open>cached_field_name: str | None\<close> and of \<^verbatim>\<open>domain: str | None\<close>.\<close>

definition truthy_str :: "string option \<Rightarrow> bool" where
  "truthy_str s = (case s of Some t \<Rightarrow> t \<noteq> [] | None \<Rightarrow> False)"

text \<open>
  \<open>find_or_create_person\<close>. The mirror store's lookup \<open>get_people_ids_by_field\<close> belongs to
  the reader, a collaborator; its answer is a parameter.
\<close>

definition cached_person :: "remote \<Rightarrow> string \<Rightarrow> pyval \<Rightarrow> person option outcome" where
  "cached_person rs cached_field_name cached_filed_value =
     then_do (send (STORE_people_ids_by_field cached_field_name [cached_filed_value])
                (people_ids_by_field rs cached_field_name [cached_filed_value]))
       (\<lambda>stale_person_id.
          if length stale_person_id = 1 then
            (case stale_person_id of
               pid # others \<Rightarrow> or_deleted (find_person_by_id rs pid)
             | [] \<Rightarrow> raise IndexError)
          else return None)"

definition find_or_create_person ::
  "remote \<Rightarrow> string \<Rightarrow> string \<Rightarrow> string list \<Rightarrow> int list option \<Rightarrow> string option \<Rightarrow> pyval
     \<Rightarrow> person outcome" where
  "find_or_create_person rs fname lname addresses orgs cached_field_name cached_filed_value =
     insert_entitlement_after
       (if (truthy_str cached_field_name \<and> \<not> truthy cached_filed_value)
           \<or> (\<not> truthy_str cached_field_name \<and> truthy cached_filed_value) then
          raise (ValueError CachedLookupNeedsBoth)
        else
          then_do
            (if truthy_str cached_field_name then
               cached_person rs (case cached_field_name of Some n \<Rightarrow> n | None \<Rightarrow> [])
                 cached_filed_value
             else return None)
            (\<lambda>cached.
               case cached of
                 Some p \<Rightarrow> return p
               | None \<Rightarrow>
                   then_do (find_person_by_emails rs addresses) (\<lambda>by_email.
                     case by_email of
                       Some p \<Rightarrow> return p
                     | None \<Rightarrow>
                         then_do (find_person_by_name rs fname lname) (\<lambda>by_name.
                           case by_name of
                             Some p \<Rightarrow> return p
                           | None \<Rightarrow>
                               then_do
                                 (lift (NewPerson fname lname addresses
                                          (case orgs of Some ids \<Rightarrow> ids | None \<Rightarrow> [])))
                                 (\<lambda>np. create_person rs np)))))"

definition cached_company :: "remote \<Rightarrow> string \<Rightarrow> pyval \<Rightarrow> company option outcome" where
  "cached_company rs cached_field_name cached_filed_value =
     then_do (send (STORE_company_ids_by_field cached_field_name [cached_filed_value])
                (company_ids_by_field rs cached_field_name [cached_filed_value]))
       (\<lambda>stale_company_id.
          if length stale_company_id = 1 then
            (case stale_company_id of
               cid # others \<Rightarrow> or_deleted (find_company_by_id rs cid)
             | [] \<Rightarrow> raise IndexError)
          else return None)"

definition find_or_create_company ::
  "remote \<Rightarrow> string \<Rightarrow> string option \<Rightarrow> bool \<Rightarrow> string option \<Rightarrow> pyval \<Rightarrow> company outcome" where
  "find_or_create_company rs name domain take_best_match cached_field_name cached_filed_value =
     insert_entitlement_after
       (if (truthy_str cached_field_name \<and> \<not> truthy cached_filed_value)
           \<or> (\<not> truthy_str cached_field_name \<and> truthy cached_filed_value) then
          raise (ValueError CachedLookupNeedsBoth)
        else
          then_do
            (if truthy_str cached_field_name then
               cached_company rs (case cached_field_name of Some n \<Rightarrow> n | None \<Rightarrow> [])
                 cached_filed_value
             else return None)
            (\<lambda>cached.
               case cached of
                 Some c \<Rightarrow> return c
               | None \<Rightarrow>
                   then_do
                     (if truthy_str domain then
                        find_company_by_domain rs (case domain of Some d \<Rightarrow> d | None \<Rightarrow> [])
                          take_best_match
                      else return None)
                     (\<lambda>by_domain.
                        case by_domain of
                          Some c \<Rightarrow> return c
                        | None \<Rightarrow>
                            then_do (find_company_by_name rs name take_best_match) (\<lambda>by_name.
                              case by_name of
                                Some c \<Rightarrow> return c
                              | None \<Rightarrow>
                                  create_company rs
                                    \<lparr>nc_name = name, nc_domain = domain, nc_person_ids = []\<rparr>))))"

text \<open>\<open>find_or_create_opportunity\<close>: the search by name on one list, then the creation.\<close>

definition find_or_create_opportunity ::
  "remote \<Rightarrow> string \<Rightarrow> int \<Rightarrow> int list \<Rightarrow> int list \<Rightarrow> opportunity outcome" where
  "find_or_create_opportunity rs name lid company_ids person_ids =
     insert_entitlement_after
       (then_do (find_opportunity_by_name rs lid name) (\<lambda>found.
          case found of
            Some opp \<Rightarrow> return opp
          | None \<Rightarrow>
              create_opportunity rs
                \<lparr>no_name = name, no_list_id = lid, no_person_ids = person_ids,
                 no_organization_ids = company_ids\<rparr>))"

text \<open>
  The requests of the cached fast path (lines 155 to 164 and 207 to 216 of the writer): the
  store's lookup by field and the fetch of the entity by id.
\<close>

definition fast_path_request :: "request \<Rightarrow> bool" where
  "fast_path_request r =
     (case r of
        STORE_people_ids_by_field n vs \<Rightarrow> True
      | STORE_company_ids_by_field n vs \<Rightarrow> True
      | GET_person i \<Rightarrow> True
      | GET_organization i \<Rightarrow> True
      | other \<Rightarrow> False)"

section \<open>Concrete inputs\<close>

text \<open>A remote service and a store that hold nothing; the inputs below override parts of it.\<close>

definition quiet :: remote where
  "quiet =
     \<lparr>get_persons = (\<lambda>t. []), get_person = (\<lambda>i. None), post_persons = (\<lambda>np. Inl 500),
      get_organizations = (\<lambda>t. []), get_organization = (\<lambda>i. None),
      post_organizations =
        (\<lambda>nc. \<lparr>c_id = 0, c_name = nc_name nc, c_domain = nc_domain nc, c_domains = [],
                c_person_ids = nc_person_ids nc\<rparr>),
      get_opportunities = (\<lambda>t. []),
      post_opportunities =
        (\<lambda>n. \<lparr>o_id = 0, o_name = no_name n, o_person_ids = no_person_ids n,
               o_organization_ids = no_organization_ids n, list_entries = []\<rparr>),
      get_list_entries = (\<lambda>l. []),
      post_list_entries = (\<lambda>l e. \<lparr>le_id = 0, le_list_id = l, le_entity_id = e\<rparr>),
      get_field_values = (\<lambda>p c opp e. []), get_fields = [], get_people_fields = [],
      get_company_fields = [], get_list_fields_v2 = (\<lambda>l. []),
      people_ids_by_field = (\<lambda>n vs. []), company_ids_by_field = (\<lambda>n vs. [])\<rparr>"

text \<open>Three companies, two of which own the domain \<open>acme.com\<close> up to case.\<close>

definition acme_a :: company where
  "acme_a = \<lparr>c_id = 1, c_name = ''Acme'', c_domain = Some ''acme.com'', c_domains = [''acme.com''],
              c_person_ids = []\<rparr>"

definition acme_b :: company where
  "acme_b = \<lparr>c_id = 2, c_name = ''Acme Inc'', c_domain = Some ''ACME.com'',
              c_domains = [''other.org'', ''ACME.com''], c_person_ids = []\<rparr>"

definition other_co :: company where
  "other_co = \<lparr>c_id = 3, c_name = ''Other'', c_domain = None, c_domains = [''acme.co''],
                c_person_ids = []\<rparr>"

definition two_acmes :: remote where
  "two_acmes = quiet\<lparr>get_organizations := (\<lambda>t. [other_co, acme_a, acme_b])\<rparr>"

definition one_acme :: remote where
  "one_acme = quiet\<lparr>get_organizations := (\<lambda>t. [other_co, acme_b])\<rparr>"

text \<open>A search for "John Doe" that the remote service answers with Jane Doe first.\<close>

definition jane_doe :: person where
  "jane_doe = \<lparr>p_id = 11, first_name = ''Jane'', last_name = ''Doe'', primary_email = None,
                emails = [], organization_ids = []\<rparr>"

definition john_doe :: person where
  "john_doe = \<lparr>p_id = 12, first_name = ''John'', last_name = ''Doe'', primary_email = None,
                emails = [], organization_ids = []\<rparr>"

definition doe_remote :: remote where
  "doe_remote = quiet\<lparr>get_persons := (\<lambda>t. if t = ''John Doe'' then [jane_doe, john_doe] else [])\<rparr>"

text \<open>A search for the opportunity "Acme" that finds "Acme Corp - Series B" on list 7.\<close>

definition series_b :: opportunity where
  "series_b = \<lparr>o_id = 70, o_name = ''Acme Corp - Series B'', o_person_ids = [],
                o_organization_ids = [],
                list_entries = [\<lparr>ole_id = 700, ole_list_id = 7, ole_entity_id = 70\<rparr>]\<rparr>"

definition deals_remote :: remote where
  "deals_remote = quiet\<lparr>get_opportunities := (\<lambda>t. if t = ''Acme'' then [series_b] else [])\<rparr>"

text \<open>A field whose composite identifier has no dash.\<close>

definition plain_meta :: field_metadata where
  "plain_meta = \<lparr>fm_type = ''global'', affinity_id = ''1234'', fm_name = ''Stage'',
                  fm_value_type = ''text''\<rparr>"

text \<open>
  List 5 with the fields Stage (legacy id 101) and Owner (102), and one entry, 50, of the
  company 9 whose Stage is A and whose Owner is B.
\<close>

definition stage_field :: field where
  "stage_field = \<lparr>f_id = 101, f_name = ''Stage'', f_list_id = Some 5, f_value_type = 2,
                   allows_multiple = False\<rparr>"

definition owner_field :: field where
  "owner_field = \<lparr>f_id = 102, f_name = ''Owner'', f_list_id = Some 5, f_value_type = 2,
                   allows_multiple = False\<rparr>"

definition stage_meta :: field_metadata where
  "stage_meta = \<lparr>fm_type = ''list'', affinity_id = ''field-101'', fm_name = ''Stage'',
                  fm_value_type = ''text''\<rparr>"

definition owner_meta :: field_metadata where
  "owner_meta = \<lparr>fm_type = ''list'', affinity_id = ''field-102'', fm_name = ''Owner'',
                  fm_value_type = ''text''\<rparr>"

definition entry_50 :: list_entry where
  "entry_50 = \<lparr>le_id = 50, le_list_id = 5, le_entity_id = 9\<rparr>"

definition stage_row :: field_value where
  "stage_row = \<lparr>fv_id = 900, field_id = 101, fv_list_entry_id = Some 50, fv_entity_id = 9,
                 fv_value = VStr ''A''\<rparr>"

definition owner_row :: field_value where
  "owner_row = \<lparr>fv_id = 901, field_id = 102, fv_list_entry_id = Some 50, fv_entity_id = 9,
                 fv_value = VStr ''B''\<rparr>"

definition pipeline_remote :: remote where
  "pipeline_remote = quiet
     \<lparr>get_fields := [stage_field, owner_field],
      get_list_fields_v2 := (\<lambda>l. if l = 5 then [stage_meta, owner_meta] else []),
      get_list_entries := (\<lambda>l. if l = 5 then [entry_50] else []),
      get_field_values := (\<lambda>p c opp e. if e = Some 50 then [stage_row, owner_row] else [])\<rparr>"

section \<open>Evaluation\<close>

lemmas run = then_do_def send_def return_def raise_def lift_def insert_entitlement_after_def Let_def

lemmas text_ops = upper_def upper_char_def lower_def lower_char_def

lemmas int_ops = py_int_def skip_c_space_def is_c_space_def digit_of_def digits_value_def

lemma snd_then_do:
  "snd (then_do m k) = snd m @ (case fst m of Inl e \<Rightarrow> [] | Inr x \<Rightarrow> snd (k x))"
  by (cases m) (auto simp: then_do_def split: sum.splits prod.splits)

lemma fst_then_do:
  "fst (then_do m k) = (case fst m of Inl e \<Rightarrow> Inl e | Inr x \<Rightarrow> fst (k x))"
  by (cases m) (auto simp: then_do_def split: sum.splits prod.splits)

lemma find_filter_hd:
  "List.find P xs = (case filter P xs of [] \<Rightarrow> None | x # rest \<Rightarrow> Some x)"
  by (induction xs) auto

lemma get_field_Stage:
  "get_field pipeline_remote ''Stage'' (Some 5) = Inr (stage_meta, Some stage_field)"
  by (simp add: get_field_def fields_def get_list_fields_def legacy_id_def v1_fields_def
      pipeline_remote_def quiet_def stage_meta_def owner_meta_def stage_field_def owner_field_def
      int_ops text_ops map_add_def)

lemma get_field_Owner:
  "get_field pipeline_remote ''Owner'' (Some 5) = Inr (owner_meta, Some owner_field)"
  by (simp add: get_field_def fields_def get_list_fields_def legacy_id_def v1_fields_def
      pipeline_remote_def quiet_def stage_meta_def owner_meta_def stage_field_def owner_field_def
      int_ops text_ops map_add_def)

lemma pipeline_answers:
  "get_field_values pipeline_remote None None None (Some 50) = [stage_row, owner_row]"
  "get_list_entries pipeline_remote 5 = [entry_50]"
  by (simp_all add: pipeline_remote_def quiet_def)

section \<open>Company search by domain\<close>

text \<open>
  C8. Let the matching companies be those of the answer with a domain equal to the query's
  after \<open>lower()\<close>. With two or more of them, \<open>find_company_by_domain\<close> raises
  \<open>MultipleResults\<close> when \<open>take_best_match\<close> is false and returns the first matching company
  of the answer, in the answer's order, when it is true; with exactly one, it returns that
  company whatever the flag.
\<close>

theorem find_company_by_domain_ambiguity:
  "(2 \<le> length (filter (\<lambda>c. \<exists>d \<in> set (c_domains c). lower d = lower domain)
                  (get_organizations rs domain)) \<longrightarrow>
      fst (find_company_by_domain rs domain False) = Inl MultipleResults
      \<and> fst (find_company_by_domain rs domain True) =
          Inr (List.find (\<lambda>c. \<exists>d \<in> set (c_domains c). lower d = lower domain)
                 (get_organizations rs domain)))
   \<and> (length (filter (\<lambda>c. \<exists>d \<in> set (c_domains c). lower d = lower domain)
                 (get_organizations rs domain)) = 1 \<longrightarrow>
        fst (find_company_by_domain rs domain take_best_match) =
          Inr (List.find (\<lambda>c. \<exists>d \<in> set (c_domains c). lower d = lower domain)
                 (get_organizations rs domain)))"
proof -
  have same: "(\<lambda>c. list_ex (\<lambda>company_domain. lower company_domain = lower domain) (c_domains c))
                = (\<lambda>c. \<exists>d \<in> set (c_domains c). lower d = lower domain)"
    by (simp add: list_ex_iff)
  show ?thesis
    by (auto simp: find_company_by_domain_def run same find_filter_hd split: list.splits)
qed

theorem find_company_by_domain_ambiguity_witness:
  "length (filter (\<lambda>c. \<exists>d \<in> set (c_domains c). lower d = lower ''Acme.com'')
             (get_organizations two_acmes ''Acme.com'')) = 2
   \<and> fst (find_company_by_domain two_acmes ''Acme.com'' False) = Inl MultipleResults
   \<and> fst (find_company_by_domain two_acmes ''Acme.com'' True) = Inr (Some acme_a)
   \<and> length (filter (\<lambda>c. \<exists>d \<in> set (c_domains c). lower d = lower ''Acme.com'')
               (get_organizations one_acme ''Acme.com'')) = 1
   \<and> fst (find_company_by_domain one_acme ''Acme.com'' False) = Inr (Some acme_b)
   \<and> fst (find_company_by_domain one_acme ''Acme.com'' True) = Inr (Some acme_b)"
proof -
  have two: "filter (\<lambda>c. \<exists>d \<in> set (c_domains c). lower d = lower ''Acme.com'')
               (get_organizations two_acmes ''Acme.com'') = [acme_a, acme_b]"
    by (simp add: two_acmes_def quiet_def acme_a_def acme_b_def other_co_def text_ops)
  have one: "filter (\<lambda>c. \<exists>d \<in> set (c_domains c). lower d = lower ''Acme.com'')
               (get_organizations one_acme ''Acme.com'') = [acme_b]"
    by (simp add: one_acme_def quiet_def acme_b_def other_co_def text_ops)
  have first_two: "List.find (\<lambda>c. \<exists>d \<in> set (c_domains c). lower d = lower ''Acme.com'')
               (get_organizations two_acmes ''Acme.com'') = Some acme_a"
    by (simp add: find_filter_hd two)
  have first_one: "List.find (\<lambda>c. \<exists>d \<in> set (c_domains c). lower d = lower ''Acme.com'')
               (get_organizations one_acme ''Acme.com'') = Some acme_b"
    by (simp add: find_filter_hd one)
  show ?thesis
    using find_company_by_domain_ambiguity [of "''Acme.com''" two_acmes]
      find_company_by_domain_ambiguity [of "''Acme.com''" one_acme False]
      find_company_by_domain_ambiguity [of "''Acme.com''" one_acme True]
    by (simp add: two one first_two first_one)
qed

section \<open>Person search by name\<close>

text \<open>
  C3. A search for John Doe is answered with Jane Doe and John Doe, in that order. Exactly
  one answer has the first and last name of the query, John Doe; \<open>find_person_by_name\<close>
  returns the first answer, Jane Doe, whose first name is not the query's, and
  \<open>find_or_create_person\<close> returns her too.
\<close>

theorem find_person_by_name_first_answer:
  "filter (\<lambda>p. upper (first_name p) = upper ''John'' \<and> upper (last_name p) = upper ''Doe'')
     (get_persons doe_remote ''John Doe'') = [john_doe]
   \<and> find_person_by_name doe_remote ''John'' ''Doe'' = (Inr (Some jane_doe), [GET_persons ''John Doe''])
   \<and> upper (first_name jane_doe) \<noteq> upper ''John''
   \<and> find_or_create_person doe_remote ''John'' ''Doe'' [] None None VNone =
       (Inr jane_doe, [GET_persons ''John Doe'', STORE_insert_call_entitlement])"
  by (simp add: find_or_create_person_def find_person_by_name_def doe_remote_def quiet_def
      jane_doe_def john_doe_def run text_ops truthy_str_def)

text \<open>What the search does in general: the parts of the rule that hold.\<close>

lemma find_person_by_name_cases:
  "fst (find_person_by_name rs fname lname) =
     (let valid = filter (\<lambda>p. upper (first_name p) = upper fname \<and> upper (last_name p) = upper lname)
                    (get_persons rs (fname @ '' '' @ lname))
      in if length valid = 1 then Inr (Some (hd (get_persons rs (fname @ '' '' @ lname))))
         else if length valid > 1 then Inl MultipleResults
         else Inr None)"
  by (auto simp: find_person_by_name_def run split: list.splits)

section \<open>Opportunity search\<close>

text \<open>
  C6. The search for the opportunity "Acme" on list 7 is answered with the one opportunity
  "Acme Corp - Series B" of that list. \<open>find_or_create_opportunity\<close> returns it and creates
  nothing, though its name does not equal the requested name in any case.
\<close>

theorem find_or_create_opportunity_other_name:
  "find_or_create_opportunity deals_remote ''Acme'' 7 [] [] =
     (Inr series_b, [GET_opportunities ''Acme'', STORE_insert_call_entitlement])
   \<and> upper (o_name series_b) \<noteq> upper ''Acme''"
  by (simp add: find_or_create_opportunity_def find_opportunity_by_name_def list_id_def
      deals_remote_def quiet_def series_b_def run text_ops)

section \<open>Legacy ids in the field catalogue\<close>

lemma split_on_no_sep: "sep \<notin> set s \<Longrightarrow> split_on sep s = [s]"
  by (induction s) auto

text \<open>The global loop stops with \<open>IndexError\<close> at a field whose identifier has no dash.\<close>

lemma fields_loop_dash_free:
  "fm_type fm \<in> set [''global'', ''list''] \<Longrightarrow> CHR ''-'' \<notin> set (affinity_id fm) \<Longrightarrow>
     fields_loop d (fm # fms) out = Inl IndexError"
  by (simp add: split_on_no_sep)

text \<open>The list's loop takes the identifier itself, which is the key of no legacy field.\<close>

lemma legacy_id_dash_free: "CHR ''-'' \<notin> set ident \<Longrightarrow> legacy_id ident = Inr (StrKey ident)"
  by (simp add: legacy_id_def)

lemma list_fields_loop_dash_free:
  "CHR ''-'' \<notin> set (affinity_id fm) \<Longrightarrow>
     list_fields_loop d (fm # fms) out =
       (if fm_type fm \<in> set [''global'', ''list'']
           \<and> affinity_id fm \<notin> set [''persons'', ''companies'']
        then list_fields_loop d fms (out(upper (fm_name fm) \<mapsto> (fm, None)))
        else list_fields_loop d fms out)"
  by (simp add: legacy_id_dash_free)

text \<open>
  C5. The people field "Stage" has the identifier \<open>1234\<close>, with no dash. The global
  catalogue fails on it with \<open>IndexError\<close>; the catalogue of a list with the same field
  does not fail and binds the name to the field with no legacy counterpart.
\<close>

theorem fields_dash_free_IndexError:
  "fields (quiet\<lparr>get_people_fields := [plain_meta]\<rparr>) = Inl IndexError
   \<and> (case get_list_fields (quiet\<lparr>get_list_fields_v2 := (\<lambda>l. [plain_meta])\<rparr>) 5 of
         Inl e \<Rightarrow> False
       | Inr found \<Rightarrow> found ''STAGE'' = Some (plain_meta, None))"
  by (simp add: fields_def get_list_fields_def quiet_def plain_meta_def legacy_id_def text_ops)

section \<open>List entries and qualifiers\<close>

text \<open>
  After a first qualifier has matched on at least one value, the variable holds raw values,
  and the second qualifier's comprehension fails on the first of them.
\<close>

lemma qualifiers_match_second_raises:
  assumes "get_field rs name1 (Some lid) = Inr resolved1"
    and "values_of (snd resolved1) held_values = Inr (v # vs)"
    and "filter (\<lambda>x. \<not> py_in x (v # vs)) (case desired1 of Multi xs \<Rightarrow> xs | Single x \<Rightarrow> [x]) = []"
    and "filter (\<lambda>x. \<not> py_in x (case desired1 of Multi xs \<Rightarrow> xs | Single x \<Rightarrow> [x])) (v # vs) = []"
    and "get_field rs name2 (Some lid) = Inr resolved2"
  shows "qualifiers_match rs lid ((name1, desired1) # (name2, desired2) # qs) held_values
           = Inl AttributeError"
  using assms by (simp add: Let_def)

text \<open>
  C4. Entry 50 of list 5 belongs to company 9; its Stage is A and its Owner is B. With the
  qualifier Stage = A alone, or Owner = B alone, \<open>find_or_create_list_entry\<close> returns the
  entry. With both qualifiers, which the entry satisfies, it raises \<open>AttributeError\<close> after
  fetching the entry's values.
\<close>

theorem find_or_create_list_entry_two_qualifiers:
  "find_or_create_list_entry pipeline_remote 9 ECompany 5 (Some [(''Stage'', Single (VStr ''A''))]) =
     (Inr entry_50,
      [GET_list_entries 5, GET_field_values None None None (Some 50), STORE_insert_call_entitlement])
   \<and> find_or_create_list_entry pipeline_remote 9 ECompany 5 (Some [(''Owner'', Single (VStr ''B''))]) =
     (Inr entry_50,
      [GET_list_entries 5, GET_field_values None None None (Some 50), STORE_insert_call_entitlement])
   \<and> find_or_create_list_entry pipeline_remote 9 ECompany 5
       (Some [(''Stage'', Single (VStr ''A'')), (''Owner'', Single (VStr ''B''))]) =
     (Inl AttributeError, [GET_list_entries 5, GET_field_values None None None (Some 50)])"
  by (simp add: find_or_create_list_entry_def fetch_field_values_def get_field_Stage get_field_Owner
      pipeline_answers run entry_50_def stage_row_def owner_row_def stage_field_def owner_field_def
      py_in_def)

section \<open>The cached fast path\<close>

text \<open>The searches and the creations send no request of the fast path.\<close>

lemma find_person_by_emails_slow:
  "\<not> list_ex fast_path_request (snd (find_person_by_emails rs addresses))"
  by (induction addresses)
     (auto simp: snd_then_do fst_then_do find_person_by_email_def return_def send_def
           fast_path_request_def split: sum.splits option.splits list.splits)

lemma find_person_by_name_slow:
  "\<not> list_ex fast_path_request (snd (find_person_by_name rs fname lname))"
  by (auto simp: find_person_by_name_def run fast_path_request_def split: list.splits)

lemma create_person_slow: "\<not> list_ex fast_path_request (snd (create_person rs np))"
  by (auto simp: create_person_def run fast_path_request_def split: sum.splits)

lemma find_company_by_domain_slow:
  "\<not> list_ex fast_path_request (snd (find_company_by_domain rs domain take_best_match))"
  by (auto simp: find_company_by_domain_def run fast_path_request_def split: list.splits)

lemma find_company_by_name_slow:
  "\<not> list_ex fast_path_request (snd (find_company_by_name rs name take_best_match))"
  by (auto simp: find_company_by_name_def run fast_path_request_def split: list.splits)

lemma create_company_slow: "\<not> list_ex fast_path_request (snd (create_company rs nc))"
  by (auto simp: create_company_def run fast_path_request_def)

lemma person_fast_path_supplied:
  "list_ex fast_path_request
     (snd (find_or_create_person rs fname lname addresses orgs cached_field_name cached_filed_value))
   \<Longrightarrow> truthy_str cached_field_name \<and> truthy cached_filed_value"
  using find_person_by_emails_slow [of rs addresses] find_person_by_name_slow [of rs fname lname]
  by (auto simp: find_or_create_person_def insert_entitlement_after_def snd_then_do fst_then_do
        return_def raise_def send_def lift_def fast_path_request_def create_person_slow
        split: sum.splits option.splits if_splits)

lemma company_fast_path_supplied:
  "list_ex fast_path_request
     (snd (find_or_create_company rs name domain take_best_match cached_field_name cached_filed_value))
   \<Longrightarrow> truthy_str cached_field_name \<and> truthy cached_filed_value"
  using find_company_by_domain_slow [of rs _ take_best_match]
    find_company_by_name_slow [of rs name take_best_match]
  by (auto simp: find_or_create_company_def insert_entitlement_after_def snd_then_do fst_then_do
        return_def raise_def send_def lift_def fast_path_request_def create_company_slow
        split: sum.splits option.splits if_splits)

text \<open>
  C9. When exactly one of \<open>cached_field_name\<close> and \<open>cached_filed_value\<close> is truthy,
  \<open>find_or_create_person\<close> and \<open>find_or_create_company\<close> raise the \<open>ValueError\<close> of the
  cached lookup and have sent no request, to the remote service or to the store. A request
  of the fast path is sent only when both are truthy.
\<close>

theorem cached_lookup_needs_both:
  "(truthy_str cached_field_name \<noteq> truthy cached_filed_value \<longrightarrow>
      find_or_create_person rs fname lname addresses orgs cached_field_name cached_filed_value
        = (Inl (ValueError CachedLookupNeedsBoth), [])
      \<and> find_or_create_company rs name domain take_best_match cached_field_name cached_filed_value
        = (Inl (ValueError CachedLookupNeedsBoth), []))
   \<and> (list_ex fast_path_request
         (snd (find_or_create_person rs fname lname addresses orgs cached_field_name
                 cached_filed_value)) \<longrightarrow>
        truthy_str cached_field_name \<and> truthy cached_filed_value)
   \<and> (list_ex fast_path_request
         (snd (find_or_create_company rs name domain take_best_match cached_field_name
                 cached_filed_value)) \<longrightarrow>
        truthy_str cached_field_name \<and> truthy cached_filed_value)"
proof (intro conjI impI)
  assume one: "truthy_str cached_field_name \<noteq> truthy cached_filed_value"
  show "find_or_create_person rs fname lname addresses orgs cached_field_name cached_filed_value
          = (Inl (ValueError CachedLookupNeedsBoth), [])"
    using one by (auto simp: find_or_create_person_def run)
  show "find_or_create_company rs name domain take_best_match cached_field_name cached_filed_value
          = (Inl (ValueError CachedLookupNeedsBoth), [])"
    using one by (auto simp: find_or_create_company_def run)
next
  assume "list_ex fast_path_request
            (snd (find_or_create_person rs fname lname addresses orgs cached_field_name
                    cached_filed_value))"
  then show "truthy_str cached_field_name" "truthy cached_filed_value"
    using person_fast_path_supplied by blast+
next
  assume "list_ex fast_path_request
            (snd (find_or_create_company rs name domain take_best_match cached_field_name
                    cached_filed_value))"
  then show "truthy_str cached_field_name" "truthy cached_filed_value"
    using company_fast_path_supplied by blast+
qed

theorem cached_lookup_needs_both_witness:
  "truthy_str (Some ''crm_id'') \<noteq> truthy (VInt 0)
   \<and> find_or_create_person quiet ''John'' ''Doe'' [] None (Some ''crm_id'') (VInt 0)
       = (Inl (ValueError CachedLookupNeedsBoth), [])
   \<and> find_or_create_company quiet ''Acme'' None False (Some ''crm_id'') (VInt 0)
       = (Inl (ValueError CachedLookupNeedsBoth), [])
   \<and> truthy_str None \<noteq> truthy (VStr ''42'')
   \<and> find_or_create_person quiet ''John'' ''Doe'' [] None None (VStr ''42'')
       = (Inl (ValueError CachedLookupNeedsBoth), [])
   \<and> find_or_create_company quiet ''Acme'' None False None (VStr ''42'')
       = (Inl (ValueError CachedLookupNeedsBoth), [])
   \<and> list_ex fast_path_request
        (snd (find_or_create_person quiet ''John'' ''Doe'' [] None (Some ''crm_id'') (VStr ''42'')))
   \<and> list_ex fast_path_request
        (snd (find_or_create_company quiet ''Acme'' None False (Some ''crm_id'') (VStr ''42'')))
   \<and> truthy_str (Some ''crm_id'') \<and> truthy (VStr ''42'')"
proof -
  have one: "truthy_str (Some ''crm_id'') \<noteq> truthy (VInt 0)"
    by (simp add: truthy_str_def)
  have other: "truthy_str None \<noteq> truthy (VStr ''42'')"
    by (simp add: truthy_str_def)
  have person: "list_ex fast_path_request
        (snd (find_or_create_person quiet ''John'' ''Doe'' [] None (Some ''crm_id'') (VStr ''42'')))"
    by (simp add: find_or_create_person_def cached_person_def find_person_by_name_def
        create_person_def NewPerson_def run truthy_str_def quiet_def fast_path_request_def)
  have company: "list_ex fast_path_request
        (snd (find_or_create_company quiet ''Acme'' None False (Some ''crm_id'') (VStr ''42'')))"
    by (simp add: find_or_create_company_def cached_company_def find_company_by_name_def
        create_company_def run truthy_str_def quiet_def fast_path_request_def)
  note first = cached_lookup_needs_both [of "Some ''crm_id''" "VInt 0" quiet "''John''" "''Doe''"
      "[]" None "''Acme''" None False]
  note second = cached_lookup_needs_both [of None "VStr ''42''" quiet "''John''" "''Doe''" "[]"
      None "''Acme''" None False]
  note third = cached_lookup_needs_both [of "Some ''crm_id''" "VStr ''42''" quiet "''John''"
      "''Doe''" "[]" None "''Acme''" None False]
  note raised1 = mp [OF conjunct1 [OF first] one]
  note raised2 = mp [OF conjunct1 [OF second] other]
  note both = mp [OF conjunct1 [OF conjunct2 [OF third]] person]
  from one other raised1 raised2 person company both show ?thesis
    by (intro conjI) (erule conjunct1 conjunct2 | assumption)+
qed

section \<open>Field updates\<close>

lemma delete_all_run: "delete_all vs = (Inr (), map (\<lambda>v. DELETE_field_values (fv_id v)) vs)"
  by (induction vs) (simp_all add: run)

lemma create_all_run:
  "create_all fid entity_id list_entry_id vs =
     (Inr (), map (\<lambda>v. POST_field_values fid entity_id (wire v) list_entry_id) vs)"
  by (induction vs) (simp_all add: run)





lemma check_text: "check_field_value_type (Single (VStr s)) ''text'' = Inr ()"
  by (simp add: check_field_value_type_def FieldTypeMap_def)


section \<open>The overwrite guard\<close>

text \<open>
  C2. Let the field resolve to a legacy field of which the current values hold at least one
  row. With \<open>overwrite\<close> false the field update sends no request, whatever the desired
  value: no value is created and none is deleted. When the value passes the type check the
  update returns normally.
\<close>

theorem update_field_keeps_existing:
  assumes "get_field rs field_name lid = Inr (fm, Some f)"
    and "filter (\<lambda>v. field_id v = f_id f) current_values \<noteq> []"
  shows "snd (update_field rs entity_id list_entry_id field_name field_value current_values False lid) = []
         \<and> (check_field_value_type field_value (fm_value_type fm) = Inr () \<longrightarrow>
              update_field rs entity_id list_entry_id field_name field_value current_values False lid
                = (Inr (), []))"
  using assms
  by (auto simp: update_field_def update_field_body_def rows_of_field_def run split: sum.splits)

theorem update_field_keeps_existing_witness:
  "get_field pipeline_remote ''Stage'' (Some 5) = Inr (stage_meta, Some stage_field)
   \<and> filter (\<lambda>v. field_id v = f_id stage_field) [stage_row, owner_row] = [stage_row]
   \<and> check_field_value_type (Single (VStr ''C'')) (fm_value_type stage_meta) = Inr ()
   \<and> update_field pipeline_remote 9 (Some 50) ''Stage'' (Single (VStr ''C'')) [stage_row, owner_row]
        False (Some 5) = (Inr (), [])
   \<and> snd (update_field pipeline_remote 9 (Some 50) ''Stage'' (Single (VInt 3)) [stage_row, owner_row]
        False (Some 5)) = []"
proof -
  have rows: "filter (\<lambda>v. field_id v = f_id stage_field) [stage_row, owner_row] = [stage_row]"
    by (simp add: stage_row_def owner_row_def stage_field_def)
  then have some: "filter (\<lambda>v. field_id v = f_id stage_field) [stage_row, owner_row] \<noteq> []"
    by simp
  have checked: "check_field_value_type (Single (VStr ''C'')) (fm_value_type stage_meta) = Inr ()"
    by (simp add: stage_meta_def check_text)
  note text_value = update_field_keeps_existing [OF get_field_Stage some,
      where field_value = "Single (VStr ''C'')" and entity_id = 9 and list_entry_id = "Some 50"]
  note number_value = update_field_keeps_existing [OF get_field_Stage some,
      where field_value = "Single (VInt 3)" and entity_id = 9 and list_entry_id = "Some 50"]
  note unchanged = mp [OF conjunct2 [OF text_value] checked]
  note silent = conjunct1 [OF number_value]
  show ?thesis
    by (intro conjI) (rule get_field_Stage rows checked unchanged silent)+
qed

section \<open>A list for a single-valued field\<close>

text \<open>
  What lines 361 to 368 do with a list once the type check has been passed: the guard of
  line 363 comes first, so the multiplicity error is raised only when the update is not
  skipped.
\<close>

lemma update_field_body_multiplicity:
  assumes "\<not> allows_multiple f"
  shows "update_field_body (Some f) entity_id list_entry_id (Multi xs) current_values overwrite =
           (if filter (\<lambda>v. field_id v = f_id f) current_values \<noteq> [] \<and> \<not> overwrite
            then (Inr (), [])
            else (Inl (ValueError FieldDoesNotAllowMultiple), []))"
  using assms by (simp add: update_field_body_def rows_of_field_def run is_list_def)

text \<open>
  A value type bound to a parameterized generic stops every update in the type check, with
  the \<open>TypeError\<close> of \<open>isinstance\<close>.
\<close>

lemma update_field_generic_type:
  assumes "get_field rs field_name lid = Inr (fm, v1_field)"
    and "FieldTypeMap (fm_value_type fm) = Some (T_list t)"
  shows "update_field rs entity_id list_entry_id field_name field_value current_values overwrite lid
           = (Inl TypeError, [])"
  by (simp add: update_field_def assms check_field_value_type_def run)

text \<open>
  C7, as stated, at a concrete input. The field Stage is single-valued and its declared
  type is \<open>text\<close>. A list of two strings is rejected, but by the type check and with its
  error, the type mismatch; the error of the multiplicity check is not raised.
\<close>

theorem update_field_list_not_multiplicity_error:
  "\<not> allows_multiple stage_field
   \<and> FieldTypeMap (fm_value_type stage_meta) = Some T_str
   \<and> fst (update_field pipeline_remote 9 (Some 50) ''Stage'' (Multi [VStr ''A'', VStr ''B'']) [] True
             (Some 5))
       = Inl (ValueError FieldValueTypeMismatch)
   \<and> fst (update_field pipeline_remote 9 (Some 50) ''Stage'' (Multi [VStr ''A'', VStr ''B'']) [] True
             (Some 5))
       \<noteq> Inl (ValueError FieldDoesNotAllowMultiple)"
  by (simp add: update_field_def get_field_Stage check_field_value_type_def FieldTypeMap_def
      stage_meta_def stage_field_def run)

text \<open>
  C7, amended. For every declared scalar type (a name that \<open>FieldTypeMap\<close> binds to \<open>int\<close>,
  \<open>float\<close>, \<open>str\<close>, \<open>datetime\<close> or \<open>Location\<close>) and every resolved field, a list value is
  rejected with a \<open>ValueError\<close>, that of the type check (the type mismatch): whatever the
  current field values, the overwrite flag and the field's \<open>allows_multiple\<close>.
\<close>

theorem update_field_list_for_scalar_type:
  assumes "get_field rs field_name lid = Inr (fm, v1_field)"
    and "FieldTypeMap (fm_value_type fm) = Some t"
    and "t \<in> set [T_int, T_float, T_str, T_datetime, T_Location]"
  shows "fst (update_field rs entity_id list_entry_id field_name (Multi xs) current_values overwrite
                lid)
           = Inl (ValueError FieldValueTypeMismatch)"
  using assms(3)
  by (auto simp: update_field_def assms(1,2) check_field_value_type_def run)

theorem update_field_list_for_scalar_type_witness:
  "get_field pipeline_remote ''Stage'' (Some 5) = Inr (stage_meta, Some stage_field)
   \<and> FieldTypeMap (fm_value_type stage_meta) = Some T_str
   \<and> T_str \<in> set [T_int, T_float, T_str, T_datetime, T_Location]
   \<and> fst (update_field pipeline_remote 9 (Some 50) ''Stage'' (Multi [VStr ''A''])
             [stage_row, owner_row] False (Some 5))
       = Inl (ValueError FieldValueTypeMismatch)
   \<and> fst (update_field pipeline_remote 9 (Some 50) ''Stage'' (Multi []) [] True (Some 5))
       = Inl (ValueError FieldValueTypeMismatch)"
proof -
  have bound: "FieldTypeMap (fm_value_type stage_meta) = Some T_str"
    by (simp add: FieldTypeMap_def stage_meta_def)
  have scalar: "T_str \<in> set [T_int, T_float, T_str, T_datetime, T_Location]"
    by simp
  note kept = update_field_list_for_scalar_type [OF get_field_Stage bound scalar,
      where xs = "[VStr ''A'']" and current_values = "[stage_row, owner_row]" and overwrite = False
        and entity_id = 9 and list_entry_id = "Some 50"]
  note empty = update_field_list_for_scalar_type [OF get_field_Stage bound scalar,
      where xs = "[]" and current_values = "[]" and overwrite = True
        and entity_id = 9 and list_entry_id = "Some 50"]
  show ?thesis
    by (intro conjI) (rule get_field_Stage bound scalar kept empty)+
qed

section \<open>Falsy entries\<close>

lemma normalize_drops_falsy: "normalize (Multi xs) = normalize (Multi (filter truthy xs))"
  by (simp add: normalize_def)

lemma strftime_nonempty: "strftime d \<noteq> []"
  by (simp add: strftime_def)

lemma strftime_all_truthy: "strftime_all vs = Inr out \<Longrightarrow> list_all truthy out"
proof (induction vs arbitrary: out rule: strftime_all.induct)
  case 1
  then show ?case by simp
next
  case (2 d vs)
  then show ?case by (auto simp: strftime_nonempty split: sum.splits)
qed simp_all

lemma normalize_truthy: "normalize field_value = Inr desired \<Longrightarrow> list_all truthy desired"
proof -
  assume n: "normalize field_value = Inr desired"
  define kept where "kept = filter truthy (case field_value of Multi xs \<Rightarrow> xs | Single v \<Rightarrow> [v])"
  have k: "list_all truthy kept"
    by (simp add: kept_def list_all_iff)
  from n have "strftime_all kept = Inr desired \<or> desired = kept"
    by (auto simp: normalize_def Let_def kept_def [symmetric] split: list.splits pyval.splits)
  then show ?thesis
    using k strftime_all_truthy by auto
qed

lemma normalize_all_falsy: "list_all (\<lambda>x. \<not> truthy x) xs \<Longrightarrow> normalize (Multi xs) = Inr []"
proof -
  assume "list_all (\<lambda>x. \<not> truthy x) xs"
  then have "filter truthy xs = []"
    by (simp add: list_all_iff filter_empty_conv)
  then show ?thesis
    by (simp add: normalize_def)
qed

lemma normalize_falsy_scalar: "\<not> truthy v \<Longrightarrow> normalize (Single v) = Inr []"
  by (simp add: normalize_def)

lemma truthy_wire: "truthy d \<Longrightarrow> truthy (wire d) \<and> \<not> py_eq (wire d) (VInt 0) \<and> \<not> py_eq (wire d) (VStr [])"
  by (cases d) (auto simp: wire_def model_dump_def)

lemma update_field_body_posts:
  assumes "POST_field_values fid eid sent le
             \<in> set (snd (update_field_body v1_field entity_id list_entry_id field_value current_values overwrite))"
  shows "\<exists>d. sent = wire d \<and> truthy d"
proof -
  from assms have "\<exists>desired d. normalize field_value = Inr desired \<and> d \<in> set desired \<and> sent = wire d"
    by (auto simp: update_field_body_def rows_of_field_def run delete_all_run create_all_run
             split: option.splits if_splits sum.splits)
  then obtain desired d where n: "normalize field_value = Inr desired"
    and "d \<in> set desired" "sent = wire d"
    by blast
  moreover have "list_all truthy desired"
    using n by (rule normalize_truthy)
  ultimately show ?thesis
    by (auto simp: list_all_iff)
qed

lemma update_field_posts:
  assumes "POST_field_values fid eid sent le
             \<in> set (snd (update_field rs entity_id list_entry_id field_name field_value current_values overwrite lid))"
  shows "\<exists>d. sent = wire d \<and> truthy d"
proof -
  have "\<exists>v1_field. POST_field_values fid eid sent le
       \<in> set (snd (update_field_body v1_field entity_id list_entry_id field_value current_values overwrite))"
  proof (cases "get_field rs field_name lid")
    case (Inl e)
    with assms show ?thesis
      by (simp add: update_field_def then_do_def lift_def raise_def)
  next
    case (Inr resolved)
    show ?thesis
    proof (cases "check_field_value_type field_value (fm_value_type (fst resolved))")
      case (Inl e)
      with assms Inr show ?thesis
        by (simp add: update_field_def then_do_def lift_def raise_def return_def)
    next
      case Inr2: (Inr u)
      with assms Inr show ?thesis
        by (auto simp: update_field_def then_do_def lift_def raise_def return_def split: prod.splits)
    qed
  qed
  then obtain v1_field where "POST_field_values fid eid sent le
       \<in> set (snd (update_field_body v1_field entity_id list_entry_id field_value current_values overwrite))"
    by blast
  then show ?thesis
    by (rule update_field_body_posts)
qed

lemma update_each_posts:
  "POST_field_values fid eid sent le
     \<in> set (snd (update_each rs entity_id list_entry_id current_values overwrite lid kvs))
   \<Longrightarrow> \<exists>d. sent = wire d \<and> truthy d"
proof (induction kvs)
  case Nil
  then show ?case by (simp add: return_def)
next
  case (Cons kv kvs)
  obtain field_name field_value where kv: "kv = (field_name, field_value)"
    by (cases kv)
  from Cons.prems show ?case
    unfolding kv
    by (auto simp: snd_then_do split: sum.splits dest: update_field_posts Cons.IH)
qed

lemma update_fields_posts:
  assumes "POST_field_values fid eid sent le
     \<in> set (snd (update_fields rs entity_id etype kvs list_entry_id lid overwrite))"
  shows "\<exists>d. sent = wire d \<and> truthy d"
proof -
  from assms obtain current_values where
    "POST_field_values fid eid sent le
       \<in> set (snd (update_each rs entity_id list_entry_id current_values overwrite lid kvs))"
    by (auto simp: update_fields_def insert_entitlement_after_def snd_then_do fst_then_do
          fetch_field_values_def send_def return_def raise_def Let_def
          split: sum.splits if_splits)
  then show ?thesis
    by (rule update_each_posts)
qed

lemma body_all_falsy:
  assumes "list_all (\<lambda>x. \<not> truthy x) xs"
  shows "update_field_body v1_field entity_id list_entry_id (Multi xs) current_values overwrite
       = update_field_body v1_field entity_id list_entry_id (Multi []) current_values overwrite"
proof -
  have "normalize (Multi xs) = Inr []"
    using assms by (rule normalize_all_falsy)
  moreover have "normalize (Multi []) = Inr []"
    by (simp add: normalize_def)
  ultimately have n: "normalize (Multi xs) = normalize (Multi [])"
    by simp
  have l: "is_list (Multi xs) = is_list (Multi [])"
    by (simp add: is_list_def)
  show ?thesis
    unfolding update_field_body_def n l ..
qed

lemma check_falsy_scalar:
  "check_field_value_type (Single v) vt = Inr () \<Longrightarrow> check_field_value_type (Single VNone) vt = Inr ()"
  by (cases "FieldTypeMap vt")
     (auto simp: check_field_value_type_def split: sum.splits if_splits elim: isinstance.elims)

lemma update_field_falsy_scalar:
  assumes "\<not> truthy v"
    and "get_field rs field_name lid = Inr (fm, v1_field)"
    and "check_field_value_type (Single v) (fm_value_type fm) = Inr ()"
  shows "update_field rs entity_id list_entry_id field_name (Single v) current_values overwrite lid
         = update_field rs entity_id list_entry_id field_name (Single VNone) current_values overwrite lid"
proof -
  have "check_field_value_type (Single VNone) (fm_value_type fm) = Inr ()"
    using assms(3) by (rule check_falsy_scalar)
  moreover have "update_field_body v1_field entity_id list_entry_id (Single v) current_values overwrite
    = update_field_body v1_field entity_id list_entry_id (Single VNone) current_values overwrite"
  proof -
    have n: "normalize (Single v) = normalize (Single VNone)"
      using assms(1) by (simp add: normalize_falsy_scalar)
    have l: "is_list (Single v) = is_list (Single VNone)"
      by (simp add: is_list_def)
    show ?thesis
      unfolding update_field_body_def n l ..
  qed
  ultimately show ?thesis
    by (simp add: update_field_def assms(2,3) then_do_def lift_def return_def)
qed

text \<open>
  C10. Normalising a list gives what normalising its truthy entries gives, and every entry
  of a normalised list is truthy: \<open>None\<close>, \<open>False\<close>, \<open>0\<close>, \<open>0.0\<close>, the empty string and the
  empty dict are dropped before the diff. Every value that \<open>update_fields\<close> creates is
  truthy, so it equals neither \<open>0\<close> nor the empty string. A list of falsy entries only is
  normalised to the empty list and is handled as the empty list is; a falsy scalar that
  passes the type check is handled as \<open>None\<close> is.
\<close>

theorem falsy_entries_dropped:
  "normalize (Multi xs) = normalize (Multi (filter truthy xs))
   \<and> (normalize field_value = Inr desired \<longrightarrow> list_all truthy desired)
   \<and> (POST_field_values fid eid sent le
         \<in> set (snd (update_fields rs entity_id etype kvs list_entry_id lid overwrite)) \<longrightarrow>
        truthy sent \<and> \<not> py_eq sent (VInt 0) \<and> \<not> py_eq sent (VStr []))
   \<and> (list_all (\<lambda>x. \<not> truthy x) ys \<longrightarrow>
        normalize (Multi ys) = Inr []
        \<and> update_field_body v1_field entity_id list_entry_id (Multi ys) current_values overwrite
            = update_field_body v1_field entity_id list_entry_id (Multi []) current_values overwrite)
   \<and> (\<not> truthy v \<longrightarrow>
        normalize (Single v) = Inr []
        \<and> (get_field rs field_name lid = Inr (fm, v1_field) \<longrightarrow>
            check_field_value_type (Single v) (fm_value_type fm) = Inr () \<longrightarrow>
            update_field rs entity_id list_entry_id field_name (Single v) current_values overwrite lid
              = update_field rs entity_id list_entry_id field_name (Single VNone) current_values
                  overwrite lid))"
proof (intro conjI impI)
  show "normalize (Multi xs) = normalize (Multi (filter truthy xs))"
    by (rule normalize_drops_falsy)
next
  assume "normalize field_value = Inr desired"
  then show "list_all truthy desired"
    by (rule normalize_truthy)
next
  assume "POST_field_values fid eid sent le
            \<in> set (snd (update_fields rs entity_id etype kvs list_entry_id lid overwrite))"
  then obtain d where "sent = wire d" "truthy d"
    using update_fields_posts by blast
  then show "truthy sent" "\<not> py_eq sent (VInt 0)" "\<not> py_eq sent (VStr [])"
    using truthy_wire by blast+
next
  assume "list_all (\<lambda>x. \<not> truthy x) ys"
  then show "normalize (Multi ys) = Inr []"
    "update_field_body v1_field entity_id list_entry_id (Multi ys) current_values overwrite
       = update_field_body v1_field entity_id list_entry_id (Multi []) current_values overwrite"
    by (rule normalize_all_falsy, rule body_all_falsy)
next
  assume "\<not> truthy v"
  then show "normalize (Single v) = Inr []"
    by (rule normalize_falsy_scalar)
next
  assume "\<not> truthy v" "get_field rs field_name lid = Inr (fm, v1_field)"
    "check_field_value_type (Single v) (fm_value_type fm) = Inr ()"
  then show "update_field rs entity_id list_entry_id field_name (Single v) current_values overwrite lid
              = update_field rs entity_id list_entry_id field_name (Single VNone) current_values
                  overwrite lid"
    by (rule update_field_falsy_scalar)
qed

theorem falsy_entries_dropped_witness:
  "normalize (Multi [VInt 0, VStr ''a'', VNone, VStr [], VBool False]) = Inr [VStr ''a'']
   \<and> list_all truthy [VStr ''a'']
   \<and> POST_field_values 101 9 (VStr ''C'') (Some 50)
        \<in> set (snd (update_fields pipeline_remote 9 ECompany [(''Stage'', Single (VStr ''C''))]
                      (Some 50) (Some 5) True))
   \<and> truthy (VStr ''C'') \<and> \<not> py_eq (VStr ''C'') (VInt 0) \<and> \<not> py_eq (VStr ''C'') (VStr [])
   \<and> list_all (\<lambda>x. \<not> truthy x) [VInt 0, VStr [], VNone, VBool False, VFloat 0]
   \<and> normalize (Multi [VInt 0, VStr [], VNone, VBool False, VFloat 0]) = Inr []
   \<and> update_field_body (Some stage_field) 9 (Some 50)
        (Multi [VInt 0, VStr [], VNone, VBool False, VFloat 0]) [stage_row, owner_row] True
       = update_field_body (Some stage_field) 9 (Some 50) (Multi []) [stage_row, owner_row] True
   \<and> \<not> truthy (VStr [])
   \<and> normalize (Single (VStr [])) = Inr []
   \<and> get_field pipeline_remote ''Stage'' (Some 5) = Inr (stage_meta, Some stage_field)
   \<and> check_field_value_type (Single (VStr [])) (fm_value_type stage_meta) = Inr ()
   \<and> update_field pipeline_remote 9 (Some 50) ''Stage'' (Single (VStr [])) [stage_row, owner_row]
        True (Some 5)
       = update_field pipeline_remote 9 (Some 50) ''Stage'' (Single VNone) [stage_row, owner_row]
           True (Some 5)"
proof -
  have mixed: "normalize (Multi [VInt 0, VStr ''a'', VNone, VStr [], VBool False]) = Inr [VStr ''a'']"
    by (simp add: normalize_def)
  have sent: "POST_field_values 101 9 (VStr ''C'') (Some 50)
        \<in> set (snd (update_fields pipeline_remote 9 ECompany [(''Stage'', Single (VStr ''C''))]
                      (Some 50) (Some 5) True))"
    by (simp add: update_fields_def fetch_field_values_def pipeline_answers update_field_def
        get_field_Stage stage_meta_def check_text update_field_body_def rows_of_field_def
        normalize_def py_in_def stage_row_def owner_row_def stage_field_def wire_def is_list_def run)
  have falsy: "list_all (\<lambda>x. \<not> truthy x) [VInt 0, VStr [], VNone, VBool False, VFloat 0]"
    by simp
  have empty: "\<not> truthy (VStr [])"
    by simp
  have checked: "check_field_value_type (Single (VStr [])) (fm_value_type stage_meta) = Inr ()"
    by (simp add: stage_meta_def check_text)
  note list_part = falsy_entries_dropped [where field_value = "Multi [VInt 0, VStr ''a'', VNone, VStr [], VBool False]"
      and desired = "[VStr ''a'']" and fid = 101 and eid = 9 and sent = "VStr ''C''" and le = "Some 50"
      and rs = pipeline_remote and entity_id = 9 and etype = ECompany
      and kvs = "[(''Stage'', Single (VStr ''C''))]" and list_entry_id = "Some 50" and lid = "Some 5"
      and overwrite = True and ys = "[VInt 0, VStr [], VNone, VBool False, VFloat 0]"
      and v1_field = "Some stage_field" and current_values = "[stage_row, owner_row]"
      and v = "VStr []" and field_name = "''Stage''" and fm = stage_meta]
  note kept = mp [OF conjunct1 [OF conjunct2 [OF list_part]] mixed]
  note created = mp [OF conjunct1 [OF conjunct2 [OF conjunct2 [OF list_part]]] sent]
  note as_empty = mp [OF conjunct1 [OF conjunct2 [OF conjunct2 [OF conjunct2 [OF list_part]]]] falsy]
  note scalar = mp [OF conjunct2 [OF conjunct2 [OF conjunct2 [OF conjunct2 [OF list_part]]]] empty]
  note as_none = mp [OF mp [OF conjunct2 [OF scalar] get_field_Stage] checked]
  show ?thesis
    using mixed kept sent created falsy as_empty empty scalar checked as_none get_field_Stage
    by (intro conjI) (erule conjunct1 conjunct2 | assumption | erule conjunct1 [OF conjunct2]
                      | erule conjunct2 [OF conjunct2])+
qed

end
